theory Spec2Isabelle
  imports Complex_Main
begin

section \<open>The banking ledger of \<^verbatim>\<open>banking.py\<close>\<close>

text \<open>
  A shallow embedding of the classes \<^verbatim>\<open>Transaction\<close>, \<^verbatim>\<open>Account\<close>,
  \<^verbatim>\<open>CheckingAccount\<close>, \<^verbatim>\<open>SavingsAccount\<close> and \<^verbatim>\<open>Bank\<close>.

  \<^item> Money is a Python \<^verbatim>\<open>float\<close> in the source and an exact rational here (the
    "decimal" of the data model): rounding, infinities and NaN are not modelled.
  \<^item> The ambient values the code reads are parameters: \<open>current_month\<close> is what
    \<^verbatim>\<open>datetime.datetime.now().month\<close> returns at the call, \<open>uuid\<close> is what
    \<^verbatim>\<open>str(uuid.uuid4())\<close> returns when an account is constructed.
  \<^item> The fields \<^verbatim>\<open>transaction_id\<close>, \<^verbatim>\<open>timestamp\<close> and \<^verbatim>\<open>_created_date\<close> hold a fresh
    identifier and the clock; no operation of the ledger reads them back and they are
    left out of the records.
  \<^item> An object mutated in place becomes a value returned by the method; a method returns
    its result (\<open>Inl\<close> the exception raised), the object as the call leaves it (also when
    it raises) and the lines it printed.
  \<^item> Text printed with a formatted amount is a \<open>message\<close> constructor carrying the amount,
    and an exception whose message formats a number carries that number.
\<close>

subsection \<open>Transactions, exceptions and console output\<close>

record transaction =
  transaction_type :: string
  amount :: rat
  description :: string

definition Transaction :: "string \<Rightarrow> rat \<Rightarrow> string \<Rightarrow> transaction" where
  "Transaction ty amt d = \<lparr>transaction_type = ty, amount = amt, description = d\<rparr>"

datatype error =
    InsufficientFundsError rat
  | InvalidAmountError string
  | MonthlyWithdrawalLimitError int
  | ValueError string

datatype message =
    Deposited rat
  | Withdrew rat
  | AppliedInterest rat
  | Transferred rat string string
  | TransferFailed error

subsection \<open>Account, the base class\<close>

record account =
  account_number :: string
  name :: string
  balance :: rat
  transactions :: "transaction list"

definition Account :: "string \<Rightarrow> string \<Rightarrow> rat \<Rightarrow> error + account" where
  "Account uuid nm initial_balance =
     (if initial_balance < 0 then Inl (InvalidAmountError ''Initial balance cannot be negative'')
      else Inr \<lparr>account_number = take 8 uuid, name = nm, balance = initial_balance,
                transactions =
                  (if initial_balance > 0
                   then [Transaction ''deposit'' initial_balance ''Initial deposit'']
                   else [])\<rparr>)"

definition deposit ::
  "'a account_scheme \<Rightarrow> rat \<Rightarrow> string \<Rightarrow> (error + unit) \<times> 'a account_scheme \<times> message list" where
  "deposit self amt d =
     (if amt \<le> 0 then (Inl (InvalidAmountError ''Deposit amount must be positive''), self, [])
      else (Inr (),
            self\<lparr>balance := balance self + amt,
                 transactions := transactions self @ [Transaction ''deposit'' amt d]\<rparr>,
            [Deposited amt]))"

definition withdraw ::
  "'a account_scheme \<Rightarrow> rat \<Rightarrow> string \<Rightarrow> (error + unit) \<times> 'a account_scheme \<times> message list" where
  "withdraw self amt d =
     (if amt \<le> 0 then (Inl (InvalidAmountError ''Withdrawal amount must be positive''), self, [])
      else if amt > balance self then (Inl (InsufficientFundsError (balance self)), self, [])
      else (Inr (),
            self\<lparr>balance := balance self - amt,
                 transactions := transactions self @ [Transaction ''withdrawal'' amt d]\<rparr>,
            [Withdrew amt]))"

definition add_transaction_record ::
  "'a account_scheme \<Rightarrow> string \<Rightarrow> rat \<Rightarrow> string \<Rightarrow> 'a account_scheme" where
  "add_transaction_record self ty amt d =
     self\<lparr>transactions := transactions self @ [Transaction ty amt d]\<rparr>"

definition get_transaction_history :: "'a account_scheme \<Rightarrow> transaction list" where
  "get_transaction_history self = transactions self"

subsection \<open>CheckingAccount and SavingsAccount\<close>

definition CheckingAccount :: "string \<Rightarrow> string \<Rightarrow> rat \<Rightarrow> error + account" where
  "CheckingAccount uuid nm initial_balance = Account uuid nm initial_balance"

record savings_account = account +
  interest_rate :: rat
  withdrawal_limit :: int
  withdrawals_this_month :: int
  last_withdrawal_month :: "nat option"

definition SavingsAccount ::
  "string \<Rightarrow> nat \<Rightarrow> string \<Rightarrow> rat \<Rightarrow> rat \<Rightarrow> error + savings_account" where
  "SavingsAccount uuid current_month nm initial_balance rate =
     (case Account uuid nm initial_balance of
        Inl e \<Rightarrow> Inl e
      | Inr a \<Rightarrow>
          Inr \<lparr>account_number = account_number a, name = name a, balance = balance a,
               transactions = transactions a,
               interest_rate = rate, withdrawal_limit = 3, withdrawals_this_month = 0,
               last_withdrawal_month =
                 (if initial_balance > 0 then Some current_month else None)\<rparr>)"

text \<open>The lazy month rollover that \<^verbatim>\<open>withdrawals_remaining\<close> and \<^verbatim>\<open>withdraw\<close> both start with.\<close>

definition reset_if_new_month :: "nat \<Rightarrow> savings_account \<Rightarrow> savings_account" where
  "reset_if_new_month current_month self =
     (if last_withdrawal_month self \<noteq> Some current_month
      then self\<lparr>withdrawals_this_month := 0, last_withdrawal_month := Some current_month\<rparr>
      else self)"

definition withdrawals_remaining :: "nat \<Rightarrow> savings_account \<Rightarrow> int \<times> savings_account" where
  "withdrawals_remaining current_month self =
     (let self1 = reset_if_new_month current_month self
      in (withdrawal_limit self1 - withdrawals_this_month self1, self1))"

definition apply_interest :: "savings_account \<Rightarrow> rat \<times> savings_account \<times> message list" where
  "apply_interest self =
     (let interest_amount = balance self * (interest_rate self / 12)
      in if interest_amount > 0
         then (interest_amount,
               self\<lparr>balance := balance self + interest_amount,
                    transactions := transactions self
                      @ [Transaction ''interest'' interest_amount ''Monthly interest'']\<rparr>,
               [AppliedInterest interest_amount])
         else (interest_amount, self, []))"

definition savings_withdraw ::
  "nat \<Rightarrow> savings_account \<Rightarrow> rat \<Rightarrow> string
     \<Rightarrow> (error + unit) \<times> savings_account \<times> message list" where
  "savings_withdraw current_month self amt d =
     (let self1 = reset_if_new_month current_month self
      in if withdrawals_this_month self1 \<ge> withdrawal_limit self1
         then (Inl (MonthlyWithdrawalLimitError (withdrawal_limit self1)), self1, [])
         else (case withdraw self1 amt d of
                 (Inl e, self2, out) \<Rightarrow> (Inl e, self2, out)
               | (Inr u, self2, out) \<Rightarrow>
                   (Inr (),
                    self2\<lparr>withdrawals_this_month := withdrawals_this_month self2 + 1\<rparr>,
                    out)))"

subsection \<open>Objects of either class, and method dispatch\<close>

datatype acct = Checking account | Savings savings_account

fun acct_balance :: "acct \<Rightarrow> rat" where
  "acct_balance (Checking a) = balance a"
| "acct_balance (Savings s) = balance s"

fun acct_transactions :: "acct \<Rightarrow> transaction list" where
  "acct_transactions (Checking a) = transactions a"
| "acct_transactions (Savings s) = transactions s"

fun acct_number :: "acct \<Rightarrow> string" where
  "acct_number (Checking a) = account_number a"
| "acct_number (Savings s) = account_number s"

fun get_account_type :: "acct \<Rightarrow> string" where
  "get_account_type (Checking a) = ''Checking''"
| "get_account_type (Savings s) = ''Savings''"

fun is_savings :: "acct \<Rightarrow> bool" where
  "is_savings (Checking a) = False"
| "is_savings (Savings s) = True"

fun is_checking :: "acct \<Rightarrow> bool" where
  "is_checking (Checking a) = True"
| "is_checking (Savings s) = False"

fun acct_deposit :: "acct \<Rightarrow> rat \<Rightarrow> string \<Rightarrow> (error + unit) \<times> acct \<times> message list" where
  "acct_deposit (Checking a) amt d =
     (case deposit a amt d of (r, a', out) \<Rightarrow> (r, Checking a', out))"
| "acct_deposit (Savings s) amt d =
     (case deposit s amt d of (r, s', out) \<Rightarrow> (r, Savings s', out))"

fun acct_withdraw ::
  "nat \<Rightarrow> acct \<Rightarrow> rat \<Rightarrow> string \<Rightarrow> (error + unit) \<times> acct \<times> message list" where
  "acct_withdraw current_month (Checking a) amt d =
     (case withdraw a amt d of (r, a', out) \<Rightarrow> (r, Checking a', out))"
| "acct_withdraw current_month (Savings s) amt d =
     (case savings_withdraw current_month s amt d of (r, s', out) \<Rightarrow> (r, Savings s', out))"

subsection \<open>Bank\<close>

text \<open>
  \<^verbatim>\<open>_accounts\<close> is a Python dict: its keys are unique and it iterates in insertion
  order. \<open>dict_set\<close> is the assignment \<^verbatim>\<open>d[k] = v\<close>: an existing key keeps its place.
\<close>

fun dict_set :: "'k \<Rightarrow> 'v \<Rightarrow> ('k \<times> 'v) list \<Rightarrow> ('k \<times> 'v) list" where
  "dict_set k v [] = [(k, v)]"
| "dict_set k v ((k', v') # rest) =
     (if k' = k then (k, v) # rest else (k', v') # dict_set k v rest)"

record bank =
  bank_name :: string
  accounts :: "(string \<times> acct) list"

definition Bank :: "string \<Rightarrow> bank" where
  "Bank nm = \<lparr>bank_name = nm, accounts = []\<rparr>"

text \<open>\<^verbatim>\<open>str.lower\<close>, on the ASCII letters.\<close>

definition lower_char :: "char \<Rightarrow> char" where
  "lower_char c =
     (let n = (of_char c :: nat) in if 65 \<le> n \<and> n \<le> 90 then char_of (n + 32) else c)"

definition lower :: "string \<Rightarrow> string" where
  "lower s = map lower_char s"

text \<open>The message of the \<^verbatim>\<open>ValueError\<close> for an unknown account type; it ends with a quote.\<close>

definition invalid_account_type :: string where
  "invalid_account_type =
     ''Invalid account type. Choose 'checking' or 'savings'' @ [CHR 0x27]"

definition create_account ::
  "bank \<Rightarrow> string \<Rightarrow> nat \<Rightarrow> string \<Rightarrow> string \<Rightarrow> rat \<Rightarrow> rat \<Rightarrow> (error + acct) \<times> bank" where
  "create_account self uuid current_month account_type nm initial_balance rate =
     (let account_type = lower account_type;
          made =
            (if account_type = ''checking''
             then map_sum id Checking (CheckingAccount uuid nm initial_balance)
             else if account_type = ''savings''
             then map_sum id Savings (SavingsAccount uuid current_month nm initial_balance rate)
             else Inl (ValueError invalid_account_type))
      in case made of
           Inl e \<Rightarrow> (Inl e, self)
         | Inr a \<Rightarrow> (Inr a, self\<lparr>accounts := dict_set (acct_number a) a (accounts self)\<rparr>))"

definition get_account :: "bank \<Rightarrow> string \<Rightarrow> acct option" where
  "get_account self number = map_of (accounts self) number"

definition get_all_accounts :: "bank \<Rightarrow> acct list" where
  "get_all_accounts self = map snd (accounts self)"

fun interest_loop ::
  "(string \<times> acct) list \<Rightarrow> rat \<Rightarrow> rat \<times> (string \<times> acct) list \<times> message list" where
  "interest_loop [] total_interest = (total_interest, [], [])"
| "interest_loop ((k, Checking a) # rest) total_interest =
     (case interest_loop rest total_interest of
        (t, rest', out) \<Rightarrow> (t, (k, Checking a) # rest', out))"
| "interest_loop ((k, Savings s) # rest) total_interest =
     (case apply_interest s of
        (i, s', out1) \<Rightarrow>
          (case interest_loop rest (total_interest + i) of
             (t, rest', out2) \<Rightarrow> (t, (k, Savings s') # rest', out1 @ out2)))"

definition apply_interest_to_savings_accounts :: "bank \<Rightarrow> rat \<times> bank \<times> message list" where
  "apply_interest_to_savings_accounts self =
     (case interest_loop (accounts self) 0 of
        (t, accs, out) \<Rightarrow> (t, self\<lparr>accounts := accs\<rparr>, out))"

text \<open>
  The body of the \<^verbatim>\<open>try\<close> block of \<^verbatim>\<open>transfer\<close>, with its handler: withdraw from the
  source, then deposit into the destination; any exception is caught, printed and turned
  into \<open>False\<close>. The source writes this body twice, once for a savings source and once
  for any other, with the same statements.
\<close>

definition transfer_legs ::
  "bank \<Rightarrow> nat \<Rightarrow> string \<Rightarrow> acct \<Rightarrow> string \<Rightarrow> acct \<Rightarrow> rat \<Rightarrow> bool \<times> bank \<times> message list" where
  "transfer_legs self current_month from_account_number from_account
       to_account_number to_account amt =
     (case acct_withdraw current_month from_account amt
             (''Transfer to account '' @ to_account_number) of
        (Inl e, from', out1) \<Rightarrow>
          (False,
           self\<lparr>accounts := dict_set from_account_number from' (accounts self)\<rparr>,
           out1 @ [TransferFailed e])
      | (Inr u, from', out1) \<Rightarrow>
          (case acct_deposit to_account amt
                  (''Transfer from account '' @ from_account_number) of
             (Inl e, to', out2) \<Rightarrow>
               (False,
                self\<lparr>accounts := dict_set to_account_number to'
                       (dict_set from_account_number from' (accounts self))\<rparr>,
                out1 @ out2 @ [TransferFailed e])
           | (Inr v, to', out2) \<Rightarrow>
               (True,
                self\<lparr>accounts := dict_set to_account_number to'
                       (dict_set from_account_number from' (accounts self))\<rparr>,
                out1 @ out2 @ [Transferred amt from_account_number to_account_number])))"

definition transfer ::
  "bank \<Rightarrow> nat \<Rightarrow> string \<Rightarrow> string \<Rightarrow> rat \<Rightarrow> (error + bool) \<times> bank \<times> message list" where
  "transfer self current_month from_account_number to_account_number amt =
     (case get_account self from_account_number of
        None \<Rightarrow>
          (Inl (ValueError (''Source account '' @ from_account_number @ '' not found'')),
           self, [])
      | Some from_account \<Rightarrow>
          (case get_account self to_account_number of
             None \<Rightarrow>
               (Inl (ValueError
                      (''Destination account '' @ to_account_number @ '' not found'')),
                self, [])
           | Some to_account \<Rightarrow>
               if from_account_number = to_account_number
               then (Inl (ValueError ''Cannot transfer to the same account''), self, [])
               else if amt \<le> 0
               then (Inl (InvalidAmountError ''Transfer amount must be positive''), self, [])
               else if amt > acct_balance from_account
               then (Inl (InsufficientFundsError (acct_balance from_account)), self, [])
               else
                 (case (if is_savings from_account
                        then transfer_legs self current_month from_account_number from_account
                               to_account_number to_account amt
                        else transfer_legs self current_month from_account_number from_account
                               to_account_number to_account amt) of
                    (ok, self', out) \<Rightarrow> (Inr ok, self', out))))"

record statistics =
  total_accounts :: int
  checking_accounts :: int
  savings_accounts :: int
  total_balance :: rat
  checking_balance :: rat
  savings_balance :: rat

definition get_bank_statistics :: "bank \<Rightarrow> statistics" where
  "get_bank_statistics self =
     (let accs = map snd (accounts self)
      in \<lparr>total_accounts = int (length (accounts self)),
          checking_accounts = sum_list (map (\<lambda>acc. 1) (filter is_checking accs)),
          savings_accounts = sum_list (map (\<lambda>acc. 1) (filter is_savings accs)),
          total_balance = sum_list (map acct_balance accs),
          checking_balance = sum_list (map acct_balance (filter is_checking accs)),
          savings_balance = sum_list (map acct_balance (filter is_savings accs))\<rparr>)"

subsection \<open>Observations used by the properties\<close>

text \<open>
  The signed amount of a transaction, as the ledger invariant counts it: a deposit and an
  interest payment are positive, a withdrawal is negative. These are the only transaction
  types that \<^verbatim>\<open>deposit\<close>, \<^verbatim>\<open>withdraw\<close>, \<^verbatim>\<open>apply_interest\<close> and the constructor write.
\<close>

definition signed_amount :: "transaction \<Rightarrow> rat" where
  "signed_amount t =
     (if transaction_type t = ''deposit'' \<or> transaction_type t = ''interest'' then amount t
      else if transaction_type t = ''withdrawal'' then - amount t
      else 0)"

definition signed_sum :: "transaction list \<Rightarrow> rat" where
  "signed_sum ts = sum_list (map signed_amount ts)"

text \<open>
  The calls a client of the ledger can make, as \<^verbatim>\<open>main\<close> does: creating an account,
  calling a method of the account stored under a number, a transfer, the interest sweep.
  \<open>exec\<close> gives the ledger after the call, whatever the call returned or raised; a method
  of an account that is not there (or \<^verbatim>\<open>apply_interest\<close> on a checking account) changes
  nothing.
\<close>

datatype command =
    CreateAccount string nat string string rat rat
  | AccountDeposit string rat string
  | AccountWithdraw nat string rat string
  | AccountApplyInterest string
  | AccountWithdrawalsRemaining nat string
  | BankTransfer nat string string rat
  | BankApplyInterest

definition on_account :: "bank \<Rightarrow> string \<Rightarrow> (acct \<Rightarrow> acct) \<Rightarrow> bank" where
  "on_account self number f =
     (case get_account self number of
        None \<Rightarrow> self
      | Some a \<Rightarrow> self\<lparr>accounts := dict_set number (f a) (accounts self)\<rparr>)"

fun exec :: "bank \<Rightarrow> command \<Rightarrow> bank" where
  "exec b (CreateAccount uuid m ty nm ib rate) = snd (create_account b uuid m ty nm ib rate)"
| "exec b (AccountDeposit k amt d) = on_account b k (\<lambda>a. fst (snd (acct_deposit a amt d)))"
| "exec b (AccountWithdraw m k amt d) =
     on_account b k (\<lambda>a. fst (snd (acct_withdraw m a amt d)))"
| "exec b (AccountApplyInterest k) =
     on_account b k
       (\<lambda>a. case a of Checking c \<Rightarrow> a | Savings s \<Rightarrow> Savings (fst (snd (apply_interest s))))"
| "exec b (AccountWithdrawalsRemaining m k) =
     on_account b k
       (\<lambda>a. case a of Checking c \<Rightarrow> a | Savings s \<Rightarrow> Savings (snd (withdrawals_remaining m s)))"
| "exec b (BankTransfer m f t amt) = fst (snd (transfer b m f t amt))"
| "exec b BankApplyInterest = fst (snd (apply_interest_to_savings_accounts b))"

definition run :: "bank \<Rightarrow> command list \<Rightarrow> bank" where
  "run b cs = foldl exec b cs"

text \<open>
  Whether \<^verbatim>\<open>withdraw\<close> would raise \<^verbatim>\<open>MonthlyWithdrawalLimitError\<close> on this object in
  this month: never for a checking account; for a savings account, when the count it
  sees after the lazy rollover has reached the limit.
\<close>

fun limit_reached :: "nat \<Rightarrow> acct \<Rightarrow> bool" where
  "limit_reached current_month (Checking a) = False"
| "limit_reached current_month (Savings s) =
     (withdrawals_this_month (reset_if_new_month current_month s)
        \<ge> withdrawal_limit (reset_if_new_month current_month s))"

subsection \<open>Example ledgers\<close>

text \<open>
  Alice opens a checking account with 500 and Bob a savings account with 1000 at 5 percent,
  both in May; in \<open>bob_at_limit\<close> Bob has then made three withdrawals in May.
\<close>

definition alice_bob :: bank where
  "alice_bob =
     run (Bank ''Universal Banking System'')
       [CreateAccount ''a1a1a1a1-0000-4000-8000-000000000001'' 5 ''checking'' ''Alice'' 500 (1/100),
        CreateAccount ''b2b2b2b2-0000-4000-8000-000000000002'' 5 ''savings'' ''Bob'' 1000 (5/100)]"

definition bob_at_limit :: bank where
  "bob_at_limit =
     run alice_bob
       [AccountWithdraw 5 ''b2b2b2b2'' 10 ''rent'',
        AccountWithdraw 5 ''b2b2b2b2'' 10 ''food'',
        AccountWithdraw 5 ''b2b2b2b2'' 10 ''books'']"

text \<open>Bob's savings account as it stands in \<open>bob_at_limit\<close>.\<close>

definition bob_spent :: savings_account where
  "bob_spent =
     \<lparr>account_number = ''b2b2b2b2'', name = ''Bob'', balance = 970,
      transactions =
        [Transaction ''deposit'' 1000 ''Initial deposit'',
         Transaction ''withdrawal'' 10 ''rent'',
         Transaction ''withdrawal'' 10 ''food'',
         Transaction ''withdrawal'' 10 ''books''],
      interest_rate = 5/100, withdrawal_limit = 3, withdrawals_this_month = 3,
      last_withdrawal_month = Some 5\<rparr>"

text \<open>
  What the interest sweep does to one account: \<open>interest_due\<close> is the value that
  \<^verbatim>\<open>apply_interest\<close> returns for a savings account (a checking account is skipped and
  adds nothing), \<open>after_interest\<close> is the account after the sweep.
\<close>

fun interest_due :: "acct \<Rightarrow> rat" where
  "interest_due (Checking a) = 0"
| "interest_due (Savings s) = balance s * (interest_rate s / 12)"

fun after_interest :: "acct \<Rightarrow> acct" where
  "after_interest (Checking a) = Checking a"
| "after_interest (Savings s) = Savings (fst (snd (apply_interest s)))"

text \<open>
  Two more ledgers: one checking account with 100 and one savings account with 1200 at
  12 percent; and a single savings account with 1200 opened with the rate -0.12, which
  \<^verbatim>\<open>create_account\<close> accepts.
\<close>

definition sweep_ledger :: bank where
  "sweep_ledger =
     run (Bank ''Universal Banking System'')
       [CreateAccount ''d4d4d4d4-0000-4000-8000-000000000004'' 5 ''checking'' ''Dan'' 100 (1/100),
        CreateAccount ''e5e5e5e5-0000-4000-8000-000000000005'' 5 ''savings'' ''Eve'' 1200 (12/100)]"


section \<open>Properties\<close>

subsection \<open>The dict\<close>

lemma map_of_dict_set: "map_of (dict_set k v al) k' = (if k' = k then Some v else map_of al k')"
  by (induction al) auto

lemma set_dict_set: "set (dict_set k v al) \<subseteq> insert (k, v) (set al)"
  by (induction al) (auto split: if_splits)

lemma get_account_dict_set:
  "get_account (b\<lparr>accounts := dict_set k v (accounts b)\<rparr>) k' =
     (if k' = k then Some v else get_account b k')"
  by (simp add: get_account_def map_of_dict_set)

subsection \<open>Transfer\<close>

lemma acct_deposit_pos:
  "0 < amt \<Longrightarrow> \<exists>B'. acct_deposit B amt d = (Inr (), B', [Deposited amt])
     \<and> acct_balance B' = acct_balance B + amt
     \<and> acct_transactions B' = acct_transactions B @ [Transaction ''deposit'' amt d]"
  by (cases B) (simp_all add: deposit_def)

lemma acct_withdraw_valid:
  assumes "0 < amt" "amt \<le> acct_balance A"
  shows "(limit_reached m A \<longrightarrow>
            (\<exists>A' n. acct_withdraw m A amt d = (Inl (MonthlyWithdrawalLimitError n), A', [])
               \<and> acct_balance A' = acct_balance A
               \<and> acct_transactions A' = acct_transactions A))
       \<and> (\<not> limit_reached m A \<longrightarrow>
            (\<exists>A'. acct_withdraw m A amt d = (Inr (), A', [Withdrew amt])
               \<and> acct_balance A' = acct_balance A - amt
               \<and> acct_transactions A' = acct_transactions A @ [Transaction ''withdrawal'' amt d]))"
proof (cases A)
  case (Checking a)
  with assms show ?thesis by (simp add: withdraw_def)
next
  case (Savings s)
  with assms show ?thesis
    by (simp add: savings_withdraw_def withdraw_def reset_if_new_month_def Let_def)
qed

lemma transfer_prechecked:
  assumes "get_account b f = Some A" "get_account b t = Some B" "f \<noteq> t"
    "0 < amt" "amt \<le> acct_balance A"
  shows "transfer b m f t amt =
     (case transfer_legs b m f A t B amt of (ok, b', out) \<Rightarrow> (Inr ok, b', out))"
  using assms by (simp add: transfer_def)

lemma transfer_legs_limit:
  assumes "0 < amt" "amt \<le> acct_balance A" "limit_reached m A"
  shows "\<exists>A' n. transfer_legs b m f A t B amt =
           (False, b\<lparr>accounts := dict_set f A' (accounts b)\<rparr>,
            [TransferFailed (MonthlyWithdrawalLimitError n)])
         \<and> acct_balance A' = acct_balance A \<and> acct_transactions A' = acct_transactions A"
proof -
  from acct_withdraw_valid[OF assms(1,2), of m "''Transfer to account '' @ t"] assms(3)
  obtain A' n where
    w: "acct_withdraw m A amt (''Transfer to account '' @ t)
          = (Inl (MonthlyWithdrawalLimitError n), A', [])"
    and u: "acct_balance A' = acct_balance A" "acct_transactions A' = acct_transactions A"
    by blast
  show ?thesis using w u by (auto simp: transfer_legs_def)
qed

lemma transfer_legs_ok:
  assumes "0 < amt" "amt \<le> acct_balance A" "\<not> limit_reached m A"
  shows "\<exists>A' B'. transfer_legs b m f A t B amt =
           (True, b\<lparr>accounts := dict_set t B' (dict_set f A' (accounts b))\<rparr>,
            [Withdrew amt, Deposited amt, Transferred amt f t])
         \<and> acct_balance A' = acct_balance A - amt
         \<and> acct_transactions A' = acct_transactions A
              @ [Transaction ''withdrawal'' amt (''Transfer to account '' @ t)]
         \<and> acct_balance B' = acct_balance B + amt
         \<and> acct_transactions B' = acct_transactions B
              @ [Transaction ''deposit'' amt (''Transfer from account '' @ f)]"
proof -
  from acct_withdraw_valid[OF assms(1,2), of m "''Transfer to account '' @ t"] assms(3)
  obtain A' where
    w: "acct_withdraw m A amt (''Transfer to account '' @ t) = (Inr (), A', [Withdrew amt])"
    and u: "acct_balance A' = acct_balance A - amt"
       "acct_transactions A' = acct_transactions A
              @ [Transaction ''withdrawal'' amt (''Transfer to account '' @ t)]"
    by blast
  from acct_deposit_pos[OF assms(1), of B "''Transfer from account '' @ f"]
  obtain B' where
    d: "acct_deposit B amt (''Transfer from account '' @ f) = (Inr (), B', [Deposited amt])"
    and v: "acct_balance B' = acct_balance B + amt"
       "acct_transactions B' = acct_transactions B
              @ [Transaction ''deposit'' amt (''Transfer from account '' @ f)]"
    by blast
  show ?thesis using w d u v by (auto simp: transfer_legs_def)
qed

lemma transfer_raises:
  assumes "transfer b m f t amt = (Inl e, b', out)"
  shows "b' = b \<and> out = []"
  using assms
  by (auto simp: transfer_def split: option.splits if_splits prod.splits)

lemma transfer_False:
  assumes "transfer b m f t amt = (Inr False, b', out)"
  shows "\<exists>A A' n. get_account b f = Some A \<and> limit_reached m A
           \<and> b' = b\<lparr>accounts := dict_set f A' (accounts b)\<rparr>
           \<and> acct_balance A' = acct_balance A \<and> acct_transactions A' = acct_transactions A
           \<and> out = [TransferFailed (MonthlyWithdrawalLimitError n)]"
proof -
  from assms obtain A B where
    g: "get_account b f = Some A" "get_account b t = Some B" "f \<noteq> t"
       "0 < amt" "amt \<le> acct_balance A"
    by (auto simp: transfer_def split: option.splits if_splits)
  show ?thesis
  proof (cases "limit_reached m A")
    case True
    from transfer_legs_limit[OF g(4,5) True, of b f t B] obtain A' n where
      l: "transfer_legs b m f A t B amt =
           (False, b\<lparr>accounts := dict_set f A' (accounts b)\<rparr>,
            [TransferFailed (MonthlyWithdrawalLimitError n)])"
      and u: "acct_balance A' = acct_balance A" "acct_transactions A' = acct_transactions A"
      by blast
    from assms l have "b' = b\<lparr>accounts := dict_set f A' (accounts b)\<rparr>"
      "out = [TransferFailed (MonthlyWithdrawalLimitError n)]"
      by (simp_all add: transfer_prechecked[OF g])
    with g(1) True u show ?thesis by blast
  next
    case False
    from transfer_legs_ok[OF g(4,5) False, of b f t B] assms g show ?thesis
      by (auto simp: transfer_prechecked[OF g])
  qed
qed


text \<open>
  Claim C1 (transfer atomicity). Whenever \<^verbatim>\<open>transfer\<close> does not return \<open>True\<close>, that is,
  it raises or returns \<open>False\<close>, every account of the ledger has the balance and the
  transaction log it had before the call: in particular the balances of the source and
  the destination, hence their sum, are unchanged and nothing was appended to either log.
\<close>

theorem transfer_atomicity:
  assumes "transfer b m f t amt = (r, b', out)" and "r \<noteq> Inr True"
  shows "map_option acct_balance (get_account b' k) = map_option acct_balance (get_account b k)
       \<and> map_option acct_transactions (get_account b' k)
           = map_option acct_transactions (get_account b k)"
proof (cases r)
  case (Inl e)
  with assms transfer_raises[of b m f t amt e b' out] show ?thesis by simp
next
  case (Inr ok)
  with assms have "transfer b m f t amt = (Inr False, b', out)" by simp
  from transfer_False[OF this] show ?thesis
    by (auto simp: get_account_dict_set)
qed

theorem transfer_atomicity_witness:
  "transfer bob_at_limit 5 ''b2b2b2b2'' ''a1a1a1a1'' 10
     = (Inr False, bob_at_limit, [TransferFailed (MonthlyWithdrawalLimitError 3)])
   \<and> map_option acct_balance
        (get_account (fst (snd (transfer bob_at_limit 5 ''b2b2b2b2'' ''a1a1a1a1'' 10)))
           ''b2b2b2b2'')
       = map_option acct_balance (get_account bob_at_limit ''b2b2b2b2'')
   \<and> map_option acct_transactions
        (get_account (fst (snd (transfer bob_at_limit 5 ''b2b2b2b2'' ''a1a1a1a1'' 10)))
           ''b2b2b2b2'')
       = map_option acct_transactions (get_account bob_at_limit ''b2b2b2b2'')"
proof -
  have e: "transfer bob_at_limit 5 ''b2b2b2b2'' ''a1a1a1a1'' 10
             = (Inr False, bob_at_limit, [TransferFailed (MonthlyWithdrawalLimitError 3)])"
    by code_simp
  have n: "(Inr False :: error + bool) \<noteq> Inr True" by simp
  from transfer_atomicity[OF e n, of "''b2b2b2b2''"] e show ?thesis by simp
qed



lemma acct_withdraw_limit:
  "limit_reached m A \<Longrightarrow>
     \<exists>s. A = Savings s
       \<and> acct_withdraw m A amt d =
           (Inl (MonthlyWithdrawalLimitError (withdrawal_limit s)),
            Savings (reset_if_new_month m s), [])"
  by (cases A) (simp_all add: savings_withdraw_def reset_if_new_month_def Let_def)

lemma transfer_legs_limit_message:
  assumes "limit_reached m A"
  shows "\<exists>s. A = Savings s
           \<and> transfer_legs b m f A t B amt =
               (False, b\<lparr>accounts := dict_set f (Savings (reset_if_new_month m s)) (accounts b)\<rparr>,
                [TransferFailed (MonthlyWithdrawalLimitError (withdrawal_limit s))])"
proof -
  from acct_withdraw_limit[OF assms, of amt "''Transfer to account '' @ t"]
  obtain s where "A = Savings s"
    and "acct_withdraw m A amt (''Transfer to account '' @ t) =
           (Inl (MonthlyWithdrawalLimitError (withdrawal_limit s)),
            Savings (reset_if_new_month m s), [])"
    by blast
  then show ?thesis by (simp add: transfer_legs_def)
qed

text \<open>
  The claim as stated, that no business-rule failure raises, fails on the example ledger:
  a missing destination, an amount above the balance, a zero amount and a transfer to the
  same account each raise.
\<close>

theorem transfer_raises_counterexample:
  "transfer alice_bob 5 ''a1a1a1a1'' ''c3c3c3c3'' 50
     = (Inl (ValueError ''Destination account c3c3c3c3 not found''), alice_bob, [])
   \<and> transfer alice_bob 5 ''a1a1a1a1'' ''b2b2b2b2'' 600
     = (Inl (InsufficientFundsError 500), alice_bob, [])
   \<and> transfer alice_bob 5 ''a1a1a1a1'' ''b2b2b2b2'' 0
     = (Inl (InvalidAmountError ''Transfer amount must be positive''), alice_bob, [])
   \<and> transfer alice_bob 5 ''a1a1a1a1'' ''a1a1a1a1'' 50
     = (Inl (ValueError ''Cannot transfer to the same account''), alice_bob, [])"
  by code_simp

text \<open>
  Claim C3, as the code has it. \<^verbatim>\<open>transfer\<close> raises for every failure it checks before
  the \<^verbatim>\<open>try\<close> block, leaving the ledger as it was and printing nothing:
  \<^verbatim>\<open>ValueError\<close> when the source or the destination does not exist or when both numbers
  are the same, \<^verbatim>\<open>InvalidAmountError\<close> when the amount is not positive,
  \<^verbatim>\<open>InsufficientFundsError\<close> when the amount exceeds the source's balance. Past these
  checks it returns a boolean and never raises: \<open>False\<close>, with the line
  "Transfer failed: Monthly withdrawal limit (n) reached" printed, exactly when the source
  is a savings account at its monthly withdrawal limit, and \<open>True\<close> otherwise.
\<close>

theorem transfer_outcome:
  "(get_account b f = None \<longrightarrow>
      transfer b m f t amt =
        (Inl (ValueError (''Source account '' @ f @ '' not found'')), b, []))
 \<and> (get_account b f = Some A \<and> get_account b t = None \<longrightarrow>
      transfer b m f t amt =
        (Inl (ValueError (''Destination account '' @ t @ '' not found'')), b, []))
 \<and> (get_account b f = Some A \<and> get_account b t = Some B \<and> f = t \<longrightarrow>
      transfer b m f t amt =
        (Inl (ValueError ''Cannot transfer to the same account''), b, []))
 \<and> (get_account b f = Some A \<and> get_account b t = Some B \<and> f \<noteq> t \<and> amt \<le> 0 \<longrightarrow>
      transfer b m f t amt =
        (Inl (InvalidAmountError ''Transfer amount must be positive''), b, []))
 \<and> (get_account b f = Some A \<and> get_account b t = Some B \<and> f \<noteq> t \<and> 0 < amt
       \<and> acct_balance A < amt \<longrightarrow>
      transfer b m f t amt = (Inl (InsufficientFundsError (acct_balance A)), b, []))
 \<and> (get_account b f = Some A \<and> get_account b t = Some B \<and> f \<noteq> t \<and> 0 < amt
       \<and> amt \<le> acct_balance A \<and> limit_reached m A \<longrightarrow>
      (\<exists>s b'. A = Savings s
         \<and> transfer b m f t amt =
             (Inr False, b',
              [TransferFailed (MonthlyWithdrawalLimitError (withdrawal_limit s))])))
 \<and> (get_account b f = Some A \<and> get_account b t = Some B \<and> f \<noteq> t \<and> 0 < amt
       \<and> amt \<le> acct_balance A \<and> \<not> limit_reached m A \<longrightarrow>
      (\<exists>b'. transfer b m f t amt =
             (Inr True, b', [Withdrew amt, Deposited amt, Transferred amt f t])))"
proof -
  have c1: "get_account b f = None \<longrightarrow>
      transfer b m f t amt =
        (Inl (ValueError (''Source account '' @ f @ '' not found'')), b, [])"
    by (simp add: transfer_def)
  have c2: "get_account b f = Some A \<and> get_account b t = None \<longrightarrow>
      transfer b m f t amt =
        (Inl (ValueError (''Destination account '' @ t @ '' not found'')), b, [])"
    by (simp add: transfer_def)
  have c3: "get_account b f = Some A \<and> get_account b t = Some B \<and> f = t \<longrightarrow>
      transfer b m f t amt =
        (Inl (ValueError ''Cannot transfer to the same account''), b, [])"
    by (simp add: transfer_def)
  have c4: "get_account b f = Some A \<and> get_account b t = Some B \<and> f \<noteq> t \<and> amt \<le> 0 \<longrightarrow>
      transfer b m f t amt =
        (Inl (InvalidAmountError ''Transfer amount must be positive''), b, [])"
    by (simp add: transfer_def)
  have c5: "get_account b f = Some A \<and> get_account b t = Some B \<and> f \<noteq> t \<and> 0 < amt
       \<and> acct_balance A < amt \<longrightarrow>
      transfer b m f t amt = (Inl (InsufficientFundsError (acct_balance A)), b, [])"
    by (simp add: transfer_def)
  have c6: "get_account b f = Some A \<and> get_account b t = Some B \<and> f \<noteq> t \<and> 0 < amt
       \<and> amt \<le> acct_balance A \<and> limit_reached m A \<longrightarrow>
      (\<exists>s b'. A = Savings s
         \<and> transfer b m f t amt =
             (Inr False, b',
              [TransferFailed (MonthlyWithdrawalLimitError (withdrawal_limit s))]))"
  proof (intro impI, elim conjE)
    assume g: "get_account b f = Some A" "get_account b t = Some B" "f \<noteq> t"
      "0 < amt" "amt \<le> acct_balance A" and l: "limit_reached m A"
    from transfer_legs_limit_message[OF l, of b f t B amt] obtain s where
      "A = Savings s" and
      "transfer_legs b m f A t B amt =
         (False, b\<lparr>accounts := dict_set f (Savings (reset_if_new_month m s)) (accounts b)\<rparr>,
          [TransferFailed (MonthlyWithdrawalLimitError (withdrawal_limit s))])"
      by blast
    then show "\<exists>s b'. A = Savings s
         \<and> transfer b m f t amt =
             (Inr False, b',
              [TransferFailed (MonthlyWithdrawalLimitError (withdrawal_limit s))])"
      by (simp add: transfer_prechecked[OF g])
  qed
  have c7: "get_account b f = Some A \<and> get_account b t = Some B \<and> f \<noteq> t \<and> 0 < amt
       \<and> amt \<le> acct_balance A \<and> \<not> limit_reached m A \<longrightarrow>
      (\<exists>b'. transfer b m f t amt =
             (Inr True, b', [Withdrew amt, Deposited amt, Transferred amt f t]))"
  proof (intro impI, elim conjE)
    assume g: "get_account b f = Some A" "get_account b t = Some B" "f \<noteq> t"
      "0 < amt" "amt \<le> acct_balance A" and l: "\<not> limit_reached m A"
    from transfer_legs_ok[OF g(4,5) l, of b f t B] obtain A' B' where
      "transfer_legs b m f A t B amt =
           (True, b\<lparr>accounts := dict_set t B' (dict_set f A' (accounts b))\<rparr>,
            [Withdrew amt, Deposited amt, Transferred amt f t])"
      by blast
    then show "\<exists>b'. transfer b m f t amt =
             (Inr True, b', [Withdrew amt, Deposited amt, Transferred amt f t])"
      by (simp add: transfer_prechecked[OF g])
  qed
  from c1 c2 c3 c4 c5 c6 c7 show ?thesis by (intro conjI)
qed

theorem transfer_outcome_witness:
  "transfer alice_bob 5 ''c3c3c3c3'' ''a1a1a1a1'' 50
     = (Inl (ValueError ''Source account c3c3c3c3 not found''), alice_bob, [])
   \<and> fst (transfer bob_at_limit 5 ''b2b2b2b2'' ''a1a1a1a1'' 10) = Inr False
   \<and> snd (snd (transfer bob_at_limit 5 ''b2b2b2b2'' ''a1a1a1a1'' 10))
       = [TransferFailed (MonthlyWithdrawalLimitError 3)]"
proof -
  have n: "get_account alice_bob ''c3c3c3c3'' = None" by code_simp
  from transfer_outcome[where b = alice_bob and f = "''c3c3c3c3''" and m = 5
      and t = "''a1a1a1a1''" and amt = 50]
  have "get_account alice_bob ''c3c3c3c3'' = None \<longrightarrow>
      transfer alice_bob 5 ''c3c3c3c3'' ''a1a1a1a1'' 50 =
        (Inl (ValueError (''Source account '' @ ''c3c3c3c3'' @ '' not found'')), alice_bob, [])"
    by (rule conjunct1)
  with n have w1: "transfer alice_bob 5 ''c3c3c3c3'' ''a1a1a1a1'' 50
     = (Inl (ValueError ''Source account c3c3c3c3 not found''), alice_bob, [])"
    by simp
  have g: "get_account bob_at_limit ''b2b2b2b2'' = Some (Savings bob_spent)"
    by code_simp
  have g2: "get_account bob_at_limit ''a1a1a1a1'' =
      Some (Checking \<lparr>account_number = ''a1a1a1a1'', name = ''Alice'', balance = 500,
              transactions = [Transaction ''deposit'' 500 ''Initial deposit'']\<rparr>)"
    by code_simp
  have ne: "''b2b2b2b2'' \<noteq> ''a1a1a1a1''" by simp
  have l: "limit_reached 5 (Savings bob_spent)" by code_simp
  have f: "(0::rat) < 10 \<and> 10 \<le> acct_balance (Savings bob_spent)" by code_simp
  from transfer_outcome[where b = bob_at_limit and f = "''b2b2b2b2''" and m = 5
      and t = "''a1a1a1a1''" and amt = 10 and A = "Savings bob_spent"
      and B = "Checking \<lparr>account_number = ''a1a1a1a1'', name = ''Alice'', balance = 500,
              transactions = [Transaction ''deposit'' 500 ''Initial deposit'']\<rparr>"]
  have "get_account bob_at_limit ''b2b2b2b2'' = Some (Savings bob_spent)
       \<and> get_account bob_at_limit ''a1a1a1a1'' = Some (Checking \<lparr>account_number = ''a1a1a1a1'', name = ''Alice'', balance = 500,
              transactions = [Transaction ''deposit'' 500 ''Initial deposit'']\<rparr>) \<and> ''b2b2b2b2'' \<noteq> ''a1a1a1a1'' \<and> 0 < (10::rat)
       \<and> 10 \<le> acct_balance (Savings bob_spent) \<and> limit_reached 5 (Savings bob_spent) \<longrightarrow>
      (\<exists>s b'. Savings bob_spent = Savings s
         \<and> transfer bob_at_limit 5 ''b2b2b2b2'' ''a1a1a1a1'' 10 =
             (Inr False, b',
              [TransferFailed (MonthlyWithdrawalLimitError (withdrawal_limit s))]))"
    by (elim conjE)
  with g g2 ne l f obtain b' where
    "transfer bob_at_limit 5 ''b2b2b2b2'' ''a1a1a1a1'' 10 =
             (Inr False, b',
              [TransferFailed (MonthlyWithdrawalLimitError (withdrawal_limit bob_spent))])"
    by blast
  moreover have "withdrawal_limit bob_spent = 3" by (simp add: bob_spent_def)
  ultimately show ?thesis using w1 by simp
qed

subsection \<open>Savings withdrawals\<close>

lemma savings_withdraw_at_limit:
  "last_withdrawal_month s = Some m \<Longrightarrow> withdrawal_limit s \<le> withdrawals_this_month s \<Longrightarrow>
     savings_withdraw m s amt d = (Inl (MonthlyWithdrawalLimitError (withdrawal_limit s)), s, [])"
  by (simp add: savings_withdraw_def reset_if_new_month_def)

lemma savings_withdraw_ok:
  assumes "withdrawals_this_month (reset_if_new_month m s) < withdrawal_limit s"
    "0 < amt" "amt \<le> balance s"
  shows "savings_withdraw m s amt d =
     (Inr (),
      (reset_if_new_month m s)
        \<lparr>balance := balance s - amt,
         transactions := transactions s @ [Transaction ''withdrawal'' amt d],
         withdrawals_this_month := withdrawals_this_month (reset_if_new_month m s) + 1\<rparr>,
      [Withdrew amt])"
  using assms
  by (auto simp: savings_withdraw_def withdraw_def reset_if_new_month_def Let_def
      split: if_splits)

lemma savings_withdraw_raises:
  assumes "savings_withdraw m s amt d = (Inl e, s', out)"
  shows "s' = reset_if_new_month m s \<and> out = []"
  using assms
  by (auto simp: savings_withdraw_def withdraw_def Let_def split: if_splits)

lemma savings_withdraw_returns:
  assumes "savings_withdraw m s amt d = (Inr u, s', out)"
  shows "withdrawals_this_month s' = withdrawals_this_month (reset_if_new_month m s) + 1
       \<and> balance s' = balance s - amt \<and> 0 < amt \<and> amt \<le> balance s"
  using assms
  by (auto simp: savings_withdraw_def withdraw_def Let_def reset_if_new_month_def split: if_splits)

text \<open>
  Claim C5 (the monthly limit of a savings account). For \<^verbatim>\<open>SavingsAccount.withdraw\<close> called
  in month \<open>m\<close>:
  \<^item> when the account last counted withdrawals in this same month and its count has reached
    the limit, the call raises \<^verbatim>\<open>MonthlyWithdrawalLimitError\<close> and leaves the whole
    object, balance and count included, as it was;
  \<^item> when the month differs from the one last observed, the count the call sees is 0 and
    the month observed becomes \<open>m\<close>;
  \<^item> when the count seen is below the limit and the amount is positive and covered by the
    balance, the withdrawal succeeds and the count becomes the count seen plus one;
  \<^item> a call that raises leaves the count at the count seen, and the balance and the log
    unchanged; a call that returns has incremented the count seen by one;
  \<^item> with the limit 3 that the constructor sets, after a rollover three withdrawals succeed
    and any fourth attempt in that month raises, changing nothing.
\<close>

theorem savings_monthly_limit:
  "(last_withdrawal_month s = Some m \<and> withdrawal_limit s \<le> withdrawals_this_month s \<longrightarrow>
      savings_withdraw m s amt d
        = (Inl (MonthlyWithdrawalLimitError (withdrawal_limit s)), s, []))
 \<and> (last_withdrawal_month s \<noteq> Some m \<longrightarrow>
      withdrawals_this_month (reset_if_new_month m s) = 0
      \<and> last_withdrawal_month (reset_if_new_month m s) = Some m
      \<and> savings_withdraw m s amt d = savings_withdraw m (reset_if_new_month m s) amt d)
 \<and> (withdrawals_this_month (reset_if_new_month m s) < withdrawal_limit s
       \<and> 0 < amt \<and> amt \<le> balance s \<longrightarrow>
      savings_withdraw m s amt d =
        (Inr (),
         (reset_if_new_month m s)
           \<lparr>balance := balance s - amt,
            transactions := transactions s @ [Transaction ''withdrawal'' amt d],
            withdrawals_this_month := withdrawals_this_month (reset_if_new_month m s) + 1\<rparr>,
         [Withdrew amt]))
 \<and> (\<forall>e s' out. savings_withdraw m s amt d = (Inl e, s', out) \<longrightarrow>
        withdrawals_this_month s' = withdrawals_this_month (reset_if_new_month m s)
        \<and> balance s' = balance s \<and> transactions s' = transactions s)
 \<and> (\<forall>u s' out. savings_withdraw m s amt d = (Inr u, s', out) \<longrightarrow>
        withdrawals_this_month s' = withdrawals_this_month (reset_if_new_month m s) + 1)
 \<and> (withdrawal_limit s = 3 \<and> last_withdrawal_month s \<noteq> Some m
       \<and> 0 < a1 \<and> 0 < a2 \<and> 0 < a3 \<and> a1 + a2 + a3 \<le> balance s \<longrightarrow>
      (\<exists>s1 s2 s3.
          savings_withdraw m s a1 d = (Inr (), s1, [Withdrew a1])
        \<and> savings_withdraw m s1 a2 d = (Inr (), s2, [Withdrew a2])
        \<and> savings_withdraw m s2 a3 d = (Inr (), s3, [Withdrew a3])
        \<and> withdrawals_this_month s3 = 3
        \<and> balance s3 = balance s - a1 - a2 - a3
        \<and> savings_withdraw m s3 amt d = (Inl (MonthlyWithdrawalLimitError 3), s3, [])))"
proof -
  have c1: "last_withdrawal_month s = Some m \<and> withdrawal_limit s \<le> withdrawals_this_month s \<longrightarrow>
      savings_withdraw m s amt d
        = (Inl (MonthlyWithdrawalLimitError (withdrawal_limit s)), s, [])"
    by (simp add: savings_withdraw_at_limit)
  have c2: "last_withdrawal_month s \<noteq> Some m \<longrightarrow>
      withdrawals_this_month (reset_if_new_month m s) = 0
      \<and> last_withdrawal_month (reset_if_new_month m s) = Some m
      \<and> savings_withdraw m s amt d = savings_withdraw m (reset_if_new_month m s) amt d"
    by (simp add: savings_withdraw_def reset_if_new_month_def)
  have c3: "withdrawals_this_month (reset_if_new_month m s) < withdrawal_limit s
       \<and> 0 < amt \<and> amt \<le> balance s \<longrightarrow>
      savings_withdraw m s amt d =
        (Inr (),
         (reset_if_new_month m s)
           \<lparr>balance := balance s - amt,
            transactions := transactions s @ [Transaction ''withdrawal'' amt d],
            withdrawals_this_month := withdrawals_this_month (reset_if_new_month m s) + 1\<rparr>,
         [Withdrew amt])"
    using savings_withdraw_ok[of m s amt d] by blast
  have c4: "\<forall>e s' out. savings_withdraw m s amt d = (Inl e, s', out) \<longrightarrow>
        withdrawals_this_month s' = withdrawals_this_month (reset_if_new_month m s)
        \<and> balance s' = balance s \<and> transactions s' = transactions s"
  proof (intro allI impI)
    fix e s' out assume "savings_withdraw m s amt d = (Inl e, s', out)"
    from savings_withdraw_raises[OF this] have "s' = reset_if_new_month m s" by simp
    then show "withdrawals_this_month s' = withdrawals_this_month (reset_if_new_month m s)
        \<and> balance s' = balance s \<and> transactions s' = transactions s"
      by (simp add: reset_if_new_month_def)
  qed
  have c5: "\<forall>u s' out. savings_withdraw m s amt d = (Inr u, s', out) \<longrightarrow>
        withdrawals_this_month s' = withdrawals_this_month (reset_if_new_month m s) + 1"
    using savings_withdraw_returns[of m s amt d] by blast
  have c6: "withdrawal_limit s = 3 \<and> last_withdrawal_month s \<noteq> Some m
       \<and> 0 < a1 \<and> 0 < a2 \<and> 0 < a3 \<and> a1 + a2 + a3 \<le> balance s \<longrightarrow>
      (\<exists>s1 s2 s3.
          savings_withdraw m s a1 d = (Inr (), s1, [Withdrew a1])
        \<and> savings_withdraw m s1 a2 d = (Inr (), s2, [Withdrew a2])
        \<and> savings_withdraw m s2 a3 d = (Inr (), s3, [Withdrew a3])
        \<and> withdrawals_this_month s3 = 3
        \<and> balance s3 = balance s - a1 - a2 - a3
        \<and> savings_withdraw m s3 amt d = (Inl (MonthlyWithdrawalLimitError 3), s3, []))"
  proof (intro impI, elim conjE)
    assume l: "withdrawal_limit s = 3" and r: "last_withdrawal_month s \<noteq> Some m"
      and p: "0 < a1" "0 < a2" "0 < a3" "a1 + a2 + a3 \<le> balance s"
    define s1 where "s1 = (reset_if_new_month m s)
           \<lparr>balance := balance s - a1,
            transactions := transactions s @ [Transaction ''withdrawal'' a1 d],
            withdrawals_this_month := withdrawals_this_month (reset_if_new_month m s) + 1\<rparr>"
    define s2 where "s2 = (reset_if_new_month m s1)
           \<lparr>balance := balance s1 - a2,
            transactions := transactions s1 @ [Transaction ''withdrawal'' a2 d],
            withdrawals_this_month := withdrawals_this_month (reset_if_new_month m s1) + 1\<rparr>"
    define s3 where "s3 = (reset_if_new_month m s2)
           \<lparr>balance := balance s2 - a3,
            transactions := transactions s2 @ [Transaction ''withdrawal'' a3 d],
            withdrawals_this_month := withdrawals_this_month (reset_if_new_month m s2) + 1\<rparr>"
    have f1: "withdrawal_limit s1 = 3" "last_withdrawal_month s1 = Some m"
      "withdrawals_this_month s1 = 1" "balance s1 = balance s - a1"
      using l r by (simp_all add: s1_def reset_if_new_month_def)
    have f2: "withdrawal_limit s2 = 3" "last_withdrawal_month s2 = Some m"
      "withdrawals_this_month s2 = 2" "balance s2 = balance s - a1 - a2"
      using f1 by (simp_all add: s2_def reset_if_new_month_def)
    have f3: "withdrawal_limit s3 = 3" "last_withdrawal_month s3 = Some m"
      "withdrawals_this_month s3 = 3" "balance s3 = balance s - a1 - a2 - a3"
      using f2 by (simp_all add: s3_def reset_if_new_month_def)
    have w1: "savings_withdraw m s a1 d = (Inr (), s1, [Withdrew a1])"
      unfolding s1_def using l r p
      by (intro savings_withdraw_ok) (simp_all add: reset_if_new_month_def)
    have w2: "savings_withdraw m s1 a2 d = (Inr (), s2, [Withdrew a2])"
      unfolding s2_def using f1 p
      by (intro savings_withdraw_ok) (simp_all add: reset_if_new_month_def)
    have w3: "savings_withdraw m s2 a3 d = (Inr (), s3, [Withdrew a3])"
      unfolding s3_def using f2 p
      by (intro savings_withdraw_ok) (simp_all add: reset_if_new_month_def)
    have w4: "savings_withdraw m s3 amt d = (Inl (MonthlyWithdrawalLimitError 3), s3, [])"
      using savings_withdraw_at_limit[of s3 m amt d] f3 by simp
    from w1 w2 w3 w4 f3 show "\<exists>s1 s2 s3.
          savings_withdraw m s a1 d = (Inr (), s1, [Withdrew a1])
        \<and> savings_withdraw m s1 a2 d = (Inr (), s2, [Withdrew a2])
        \<and> savings_withdraw m s2 a3 d = (Inr (), s3, [Withdrew a3])
        \<and> withdrawals_this_month s3 = 3
        \<and> balance s3 = balance s - a1 - a2 - a3
        \<and> savings_withdraw m s3 amt d = (Inl (MonthlyWithdrawalLimitError 3), s3, [])"
      by blast
  qed
  from c1 c2 c3 c4 c5 c6 show ?thesis by (intro conjI)
qed

theorem savings_monthly_limit_witness:
  "savings_withdraw 5 bob_spent 10 ''cash''
     = (Inl (MonthlyWithdrawalLimitError 3), bob_spent, [])
   \<and> fst (savings_withdraw 6 bob_spent 10 ''cash'') = Inr ()
   \<and> withdrawals_this_month (fst (snd (savings_withdraw 6 bob_spent 10 ''cash''))) = 1"
proof -
  note T = savings_monthly_limit[where s = bob_spent and amt = 10 and d = "''cash''"]
  have h1: "last_withdrawal_month bob_spent = Some 5
            \<and> withdrawal_limit bob_spent \<le> withdrawals_this_month bob_spent"
    by (simp add: bob_spent_def)
  from T[where m = 5]
  have "last_withdrawal_month bob_spent = Some 5
          \<and> withdrawal_limit bob_spent \<le> withdrawals_this_month bob_spent \<longrightarrow>
        savings_withdraw 5 bob_spent 10 ''cash''
          = (Inl (MonthlyWithdrawalLimitError (withdrawal_limit bob_spent)), bob_spent, [])"
    by (rule conjunct1)
  with h1 have w1: "savings_withdraw 5 bob_spent 10 ''cash''
     = (Inl (MonthlyWithdrawalLimitError 3), bob_spent, [])"
    by (simp add: bob_spent_def)
  have h2: "withdrawals_this_month (reset_if_new_month 6 bob_spent) < withdrawal_limit bob_spent
       \<and> (0::rat) < 10 \<and> 10 \<le> balance bob_spent"
    by (simp add: bob_spent_def reset_if_new_month_def)
  from T[where m = 6]
  have "withdrawals_this_month (reset_if_new_month 6 bob_spent) < withdrawal_limit bob_spent
       \<and> 0 < (10::rat) \<and> 10 \<le> balance bob_spent \<longrightarrow>
      savings_withdraw 6 bob_spent 10 ''cash'' =
        (Inr (),
         (reset_if_new_month 6 bob_spent)
           \<lparr>balance := balance bob_spent - 10,
            transactions := transactions bob_spent @ [Transaction ''withdrawal'' 10 ''cash''],
            withdrawals_this_month := withdrawals_this_month (reset_if_new_month 6 bob_spent) + 1\<rparr>,
         [Withdrew 10])"
    by (rule conjunct2[THEN conjunct2, THEN conjunct1])
  with h2 have w2: "savings_withdraw 6 bob_spent 10 ''cash'' =
        (Inr (),
         (reset_if_new_month 6 bob_spent)
           \<lparr>balance := balance bob_spent - 10,
            transactions := transactions bob_spent @ [Transaction ''withdrawal'' 10 ''cash''],
            withdrawals_this_month := withdrawals_this_month (reset_if_new_month 6 bob_spent) + 1\<rparr>,
         [Withdrew 10])"
    by blast
  have "withdrawals_this_month (reset_if_new_month 6 bob_spent) = 0"
    by (simp add: bob_spent_def reset_if_new_month_def)
  with w1 w2 show ?thesis by simp
qed

subsection \<open>The withdraw contract\<close>






subsection \<open>Account creation\<close>

lemma create_account_invalid_type:
  "lower ty \<noteq> ''checking'' \<Longrightarrow> lower ty \<noteq> ''savings'' \<Longrightarrow>
     create_account b uuid m ty nm ib rate = (Inl (ValueError invalid_account_type), b)"
  by (simp add: create_account_def Let_def)

lemma create_account_negative:
  "lower ty = ''checking'' \<or> lower ty = ''savings'' \<Longrightarrow> ib < 0 \<Longrightarrow>
     create_account b uuid m ty nm ib rate
       = (Inl (InvalidAmountError ''Initial balance cannot be negative''), b)"
  by (auto simp: create_account_def Let_def CheckingAccount_def SavingsAccount_def Account_def)

lemma create_account_checking:
  "lower ty = ''checking'' \<Longrightarrow> 0 \<le> ib \<Longrightarrow>
     create_account b uuid m ty nm ib rate
       = (Inr (Checking \<lparr>account_number = take 8 uuid, name = nm, balance = ib,
                 transactions =
                   (if 0 < ib then [Transaction ''deposit'' ib ''Initial deposit''] else [])\<rparr>),
          b\<lparr>accounts := dict_set (take 8 uuid)
                (Checking \<lparr>account_number = take 8 uuid, name = nm, balance = ib,
                   transactions =
                     (if 0 < ib then [Transaction ''deposit'' ib ''Initial deposit''] else [])\<rparr>)
                (accounts b)\<rparr>)"
  by (simp add: create_account_def Let_def CheckingAccount_def Account_def)

lemma create_account_savings:
  "lower ty = ''savings'' \<Longrightarrow> 0 \<le> ib \<Longrightarrow>
     create_account b uuid m ty nm ib rate
       = (Inr (Savings \<lparr>account_number = take 8 uuid, name = nm, balance = ib,
                 transactions =
                   (if 0 < ib then [Transaction ''deposit'' ib ''Initial deposit''] else []),
                 interest_rate = rate, withdrawal_limit = 3, withdrawals_this_month = 0,
                 last_withdrawal_month = (if 0 < ib then Some m else None)\<rparr>),
          b\<lparr>accounts := dict_set (take 8 uuid)
                (Savings \<lparr>account_number = take 8 uuid, name = nm, balance = ib,
                   transactions =
                     (if 0 < ib then [Transaction ''deposit'' ib ''Initial deposit''] else []),
                   interest_rate = rate, withdrawal_limit = 3, withdrawals_this_month = 0,
                   last_withdrawal_month = (if 0 < ib then Some m else None)\<rparr>)
                (accounts b)\<rparr>)"
  by (simp add: create_account_def Let_def SavingsAccount_def Account_def)

lemma create_account_registers:
  assumes "create_account b uuid m ty nm ib rate = (Inr a, b')"
  shows "acct_number a = take 8 uuid
       \<and> get_account b' (take 8 uuid) = Some a
       \<and> (\<forall>k. k \<noteq> take 8 uuid \<longrightarrow> get_account b' k = get_account b k)
       \<and> bank_name b' = bank_name b"
proof -
  from assms have n: "acct_number a = take 8 uuid"
    by (auto simp: create_account_def Let_def CheckingAccount_def SavingsAccount_def Account_def
        split: if_splits sum.splits)
  from assms have "b' = b\<lparr>accounts := dict_set (acct_number a) a (accounts b)\<rparr>"
    by (auto simp: create_account_def Let_def split: if_splits sum.splits)
  with n show ?thesis by (simp add: get_account_dict_set)
qed

text \<open>
  Claim C9 (account creation). The account type is compared after \<^verbatim>\<open>lower()\<close>, so the
  kind is read without regard to letter case. \<^verbatim>\<open>create_account\<close>
  \<^item> raises \<^verbatim>\<open>ValueError\<close> for every type that is neither checking nor savings, and the
    ledger is unchanged;
  \<^item> for a checking or savings type with a negative initial balance, lets the
    \<^verbatim>\<open>InvalidAmountError\<close> of the constructor through, and the ledger is unchanged;
  \<^item> otherwise returns the new checking account, or the new savings account with the given
    rate, limit 3 and count 0, whose number is the first eight characters of the generated
    identifier, whose balance is the initial balance and whose log holds the initial
    deposit when that balance is positive;
  \<^item> and registers the account it returns under that number, every other number keeping
    the account it had.
\<close>

theorem create_account_contract:
  "(lower ty \<noteq> ''checking'' \<and> lower ty \<noteq> ''savings'' \<longrightarrow>
      create_account b uuid m ty nm ib rate = (Inl (ValueError invalid_account_type), b))
 \<and> ((lower ty = ''checking'' \<or> lower ty = ''savings'') \<and> ib < 0 \<longrightarrow>
      create_account b uuid m ty nm ib rate
        = (Inl (InvalidAmountError ''Initial balance cannot be negative''), b))
 \<and> (lower ty = ''checking'' \<and> 0 \<le> ib \<longrightarrow>
      fst (create_account b uuid m ty nm ib rate)
        = Inr (Checking \<lparr>account_number = take 8 uuid, name = nm, balance = ib,
                 transactions =
                   (if 0 < ib then [Transaction ''deposit'' ib ''Initial deposit''] else [])\<rparr>))
 \<and> (lower ty = ''savings'' \<and> 0 \<le> ib \<longrightarrow>
      fst (create_account b uuid m ty nm ib rate)
        = Inr (Savings \<lparr>account_number = take 8 uuid, name = nm, balance = ib,
                 transactions =
                   (if 0 < ib then [Transaction ''deposit'' ib ''Initial deposit''] else []),
                 interest_rate = rate, withdrawal_limit = 3, withdrawals_this_month = 0,
                 last_withdrawal_month = (if 0 < ib then Some m else None)\<rparr>))
 \<and> (\<forall>a b'. create_account b uuid m ty nm ib rate = (Inr a, b') \<longrightarrow>
        acct_number a = take 8 uuid
        \<and> get_account b' (take 8 uuid) = Some a
        \<and> (\<forall>k. k \<noteq> take 8 uuid \<longrightarrow> get_account b' k = get_account b k)
        \<and> bank_name b' = bank_name b)"
proof -
  have c1: "lower ty \<noteq> ''checking'' \<and> lower ty \<noteq> ''savings'' \<longrightarrow>
      create_account b uuid m ty nm ib rate = (Inl (ValueError invalid_account_type), b)"
    using create_account_invalid_type[of ty b uuid m nm ib rate] by blast
  have c2: "(lower ty = ''checking'' \<or> lower ty = ''savings'') \<and> ib < 0 \<longrightarrow>
      create_account b uuid m ty nm ib rate
        = (Inl (InvalidAmountError ''Initial balance cannot be negative''), b)"
    using create_account_negative[of ty ib b uuid m nm rate] by blast
  have c3: "lower ty = ''checking'' \<and> 0 \<le> ib \<longrightarrow>
      fst (create_account b uuid m ty nm ib rate)
        = Inr (Checking \<lparr>account_number = take 8 uuid, name = nm, balance = ib,
                 transactions =
                   (if 0 < ib then [Transaction ''deposit'' ib ''Initial deposit''] else [])\<rparr>)"
    by (simp add: create_account_checking)
  have c4: "lower ty = ''savings'' \<and> 0 \<le> ib \<longrightarrow>
      fst (create_account b uuid m ty nm ib rate)
        = Inr (Savings \<lparr>account_number = take 8 uuid, name = nm, balance = ib,
                 transactions =
                   (if 0 < ib then [Transaction ''deposit'' ib ''Initial deposit''] else []),
                 interest_rate = rate, withdrawal_limit = 3, withdrawals_this_month = 0,
                 last_withdrawal_month = (if 0 < ib then Some m else None)\<rparr>)"
    by (simp add: create_account_savings)
  have c5: "\<forall>a b'. create_account b uuid m ty nm ib rate = (Inr a, b') \<longrightarrow>
        acct_number a = take 8 uuid
        \<and> get_account b' (take 8 uuid) = Some a
        \<and> (\<forall>k. k \<noteq> take 8 uuid \<longrightarrow> get_account b' k = get_account b k)
        \<and> bank_name b' = bank_name b"
    using create_account_registers[of b uuid m ty nm ib rate] by blast
  from c1 c2 c3 c4 c5 show ?thesis by (intro conjI)
qed

theorem create_account_contract_witness:
  "create_account alice_bob ''c3c3c3c3-0000-4000-8000-000000000003'' 5 ''crypto'' ''X'' 0 0
     = (Inl (ValueError invalid_account_type), alice_bob)
   \<and> fst (create_account alice_bob ''c3c3c3c3-0000-4000-8000-000000000003'' 5 ''Savings''
            ''Carol'' 250 (2/100))
       = Inr (Savings \<lparr>account_number = ''c3c3c3c3'', name = ''Carol'', balance = 250,
                 transactions = [Transaction ''deposit'' 250 ''Initial deposit''],
                 interest_rate = 2/100, withdrawal_limit = 3, withdrawals_this_month = 0,
                 last_withdrawal_month = Some 5\<rparr>)"
proof -
  have l: "lower ''crypto'' \<noteq> ''checking'' \<and> lower ''crypto'' \<noteq> ''savings''"
    by code_simp
  have w1: "create_account alice_bob ''c3c3c3c3-0000-4000-8000-000000000003'' 5 ''crypto'' ''X'' 0 0
     = (Inl (ValueError invalid_account_type), alice_bob)"
    using create_account_contract[where ty = "''crypto''" and b = alice_bob
        and uuid = "''c3c3c3c3-0000-4000-8000-000000000003''" and m = 5 and nm = "''X''"
        and ib = 0 and rate = 0, THEN conjunct1] l
    by blast
  have s: "lower ''Savings'' = ''savings'' \<and> (0::rat) \<le> 250" by code_simp
  have w2: "fst (create_account alice_bob ''c3c3c3c3-0000-4000-8000-000000000003'' 5 ''Savings''
            ''Carol'' 250 (2/100))
       = Inr (Savings \<lparr>account_number = take 8 ''c3c3c3c3-0000-4000-8000-000000000003'',
                 name = ''Carol'', balance = 250,
                 transactions =
                   (if (0::rat) < 250 then [Transaction ''deposit'' 250 ''Initial deposit''] else []),
                 interest_rate = 2/100, withdrawal_limit = 3, withdrawals_this_month = 0,
                 last_withdrawal_month = (if (0::rat) < 250 then Some 5 else None)\<rparr>)"
    using create_account_contract[where ty = "''Savings''" and b = alice_bob
        and uuid = "''c3c3c3c3-0000-4000-8000-000000000003''" and m = 5 and nm = "''Carol''"
        and ib = 250 and rate = "2/100",
        THEN conjunct2, THEN conjunct2, THEN conjunct2, THEN conjunct1] s
    by blast
  from w1 w2 show ?thesis by simp
qed

subsection \<open>Statistics\<close>

lemma checking_or_savings: "is_checking a \<noteq> is_savings a"
  by (cases a) simp_all



text \<open>
  The scenario of the specification: after Alice transfers 200 to Bob the ledger reports a
  total of 1500, 300 in checking accounts and 1200 in savings accounts.
\<close>

lemma statistics_after_transfer: "get_bank_statistics (fst (snd (transfer alice_bob 5 ''a1a1a1a1'' ''b2b2b2b2'' 200)))
  = \<lparr>total_accounts = 2, checking_accounts = 1, savings_accounts = 1,
     total_balance = 1500, checking_balance = 300, savings_balance = 1200\<rparr>"
  by code_simp


subsection \<open>The interest sweep\<close>

lemma apply_interest_returns: "fst (apply_interest s) = balance s * (interest_rate s / 12)"
  by (simp add: apply_interest_def Let_def)

lemma interest_loop_total:
  "fst (interest_loop accs t) = t + sum_list (map (\<lambda>(k, a). interest_due a) accs)"
proof (induction accs t rule: interest_loop.induct)
  case (1 t)
  show ?case by simp
next
  case (2 k a rest t)
  then show ?case by (auto split: prod.splits)
next
  case (3 k s rest t)
  have "fst (apply_interest s) = balance s * (interest_rate s / 12)"
    by (rule apply_interest_returns)
  with 3 show ?case by (auto split: prod.splits)
qed

lemma interest_loop_accounts:
  "fst (snd (interest_loop accs t)) = map (\<lambda>(k, a). (k, after_interest a)) accs"
proof (induction accs t rule: interest_loop.induct)
  case (1 t)
  show ?case by simp
next
  case (2 k a rest t)
  then show ?case by (auto split: prod.splits)
next
  case (3 k s rest t)
  then show ?case by (auto split: prod.splits)
qed

lemma after_interest_applied:
  "0 \<le> interest_due a \<Longrightarrow> acct_balance (after_interest a) - acct_balance a = interest_due a"
  by (cases a) (auto simp: apply_interest_def Let_def)

text \<open>
  The sweep keeps the numbers and the order of the accounts, leaves every checking account
  as it is and replaces every savings account by the result of \<^verbatim>\<open>apply_interest\<close>; it
  returns the sum of the values \<^verbatim>\<open>apply_interest\<close> returned. Where none of these values is
  negative, that sum is the sum of the amounts added to the balances.
\<close>

lemma sweep_accounts:
  "accounts (fst (snd (apply_interest_to_savings_accounts b)))
     = map (\<lambda>(k, a). (k, after_interest a)) (accounts b)"
  using interest_loop_accounts[of "accounts b" 0]
  by (auto simp: apply_interest_to_savings_accounts_def split: prod.splits)

lemma sweep_total:
  "fst (apply_interest_to_savings_accounts b)
     = sum_list (map (\<lambda>(k, a). interest_due a) (accounts b))"
  using interest_loop_total[of "accounts b" 0]
  by (auto simp: apply_interest_to_savings_accounts_def split: prod.splits)

lemma due_is_applied:
  "\<forall>(k, a) \<in> set xs. 0 \<le> interest_due a \<Longrightarrow>
     sum_list (map (\<lambda>(k, a). interest_due a) xs)
       = sum_list (map (\<lambda>(k, a). acct_balance (after_interest a) - acct_balance a) xs)"
  by (induction xs) (auto simp: after_interest_applied)

lemma sweep_total_applied:
  assumes "\<forall>(k, a) \<in> set (accounts b). 0 \<le> interest_due a"
  shows "fst (apply_interest_to_savings_accounts b)
     = sum_list (map (\<lambda>(k, a). acct_balance (after_interest a) - acct_balance a) (accounts b))"
  using due_is_applied[OF assms] by (simp add: sweep_total)

text \<open>
  The scenario of the specification: with a checking account holding 100 and a savings
  account holding 1200 at the rate 0.12 the sweep returns 12, the checking account is
  untouched and the savings account holds 1212.
\<close>

lemma sweep_scenario:
  "fst (apply_interest_to_savings_accounts sweep_ledger) = 12
   \<and> get_account (fst (snd (apply_interest_to_savings_accounts sweep_ledger))) ''d4d4d4d4''
       = get_account sweep_ledger ''d4d4d4d4''
   \<and> map_option acct_balance (get_account sweep_ledger ''d4d4d4d4'') = Some 100
   \<and> map_option acct_balance
        (get_account (fst (snd (apply_interest_to_savings_accounts sweep_ledger))) ''e5e5e5e5'')
       = Some 1212"
  by code_simp


end
